theory Spec2Isabelle
  imports Main
begin

section \<open>The WebRTC client of src/js/webrtc-client.js\<close>

text \<open>
  The class \<open>WebRTCClient\<close> is embedded as a record of its instance fields and one
  function per method. A method takes the client and returns the client as the method
  leaves it, together with the list of everything the method did to the outside, in
  program order: messages written to the WebSocket, callbacks invoked, calls into the
  browser's media engine, \<open>console.error\<close> lines.

  The browser is the environment. Each of its operations that the source awaits inside a
  \<open>try\<close> block may reject; what it answers is a parameter of the model (the record
  \<open>engine\<close>), so every theorem below holds for every browser behaviour unless it
  says otherwise. \<open>RTCPeerConnection.close\<close>, \<open>MediaStreamTrack.stop\<close>,
  \<open>WebSocket.close\<close> and \<open>WebSocket.send\<close> on an open socket do not throw, and
  the callbacks handed in by the page are recorded, not run. \<open>console.log\<close> lines are
  left out; \<open>console.error\<close> lines are kept, since they are all that remains of an
  error the source swallows.

  Each handler runs to completion before the next one starts: an \<open>await\<close> inside a
  handler is not a point where another handler is let in.
\<close>

subsection \<open>Data\<close>

type_synonym sdp = string
type_synonym candidate = string

datatype track_kind = Video | Audio

record track =
  tid :: nat
  kind :: track_kind
  enabled :: bool

type_synonym stream = "track list"

text \<open>\<open>WebSocket.readyState\<close>: 0 connecting, 1 open, 2 closing, 3 closed.\<close>

record websocket =
  readyState :: nat

definition WS_OPEN :: nat where
  "WS_OPEN = 1"

text \<open>
  What the client can observe or cause on an \<open>RTCPeerConnection\<close>: the two session
  descriptions last set, the tracks added, the remote candidates accepted (oldest first).
\<close>

record peer =
  localDescription :: "sdp option"
  remoteDescription :: "sdp option"
  senders :: "nat list"
  remoteCandidates :: "candidate list"

definition new_peer :: peer where
  "new_peer = \<lparr>localDescription = None, remoteDescription = None, senders = [],
     remoteCandidates = []\<rparr>"

text \<open>
  A signaling message, as parsed from or serialised to JSON. A field the object does not
  have is the empty string (\<open>msessionId\<close>: \<open>None\<close> is \<open>null\<close>).
\<close>

record message =
  mtype :: string
  msessionId :: "string option"
  msdp :: sdp
  mcandidate :: candidate
  muserId :: string
  muserType :: string

definition msg :: "string \<Rightarrow> string option \<Rightarrow> message" where
  "msg t sid = \<lparr>mtype = t, msessionId = sid, msdp = [], mcandidate = [],
     muserId = [], muserType = []\<rparr>"

text \<open>The five objects the source writes to or reads from the socket.\<close>

definition join_message :: "string option \<Rightarrow> string \<Rightarrow> string \<Rightarrow> message" where
  "join_message sid uid ut = (msg ''join'' sid)\<lparr>muserId := uid, muserType := ut\<rparr>"

definition offer_message :: "string option \<Rightarrow> sdp \<Rightarrow> message" where
  "offer_message sid d = (msg ''offer'' sid)\<lparr>msdp := d\<rparr>"

definition answer_message :: "string option \<Rightarrow> sdp \<Rightarrow> message" where
  "answer_message sid d = (msg ''answer'' sid)\<lparr>msdp := d\<rparr>"

definition ice_message :: "string option \<Rightarrow> candidate \<Rightarrow> message" where
  "ice_message sid c = (msg ''ice-candidate'' sid)\<lparr>mcandidate := c\<rparr>"

definition call_ended_message :: "string option \<Rightarrow> message" where
  "call_ended_message sid = msg ''call-ended'' sid"

datatype effect =
    Send message
  | ConsoleError string
  | OnLocalStream stream
  | OnRemoteStream stream
  | OnConnectionStateChange string
  | OnError string
  | OnCallEnded
  | GetUserMedia
  | NewPeerConnection
  | AddTrack nat
  | CreateOffer
  | CreateAnswer
  | SetLocalDescription sdp
  | SetRemoteDescription sdp
  | AddIceCandidate candidate
  | ClosePeerConnection
  | StopTrack nat
  | CloseWebSocket
  | Fetch string

text \<open>
  The browser's answers. A rejection carries \<open>error.message\<close>. The operations on a
  peer connection may depend on the connection they are called on and on their argument.
\<close>

record engine =
  getUserMedia :: "string + stream"
  createOffer :: "peer \<Rightarrow> string + sdp"
  createAnswer :: "peer \<Rightarrow> string + sdp"
  setLocalDescription :: "peer \<Rightarrow> sdp \<Rightarrow> string option"
  setRemoteDescription :: "peer \<Rightarrow> sdp \<Rightarrow> string option"
  addIceCandidate :: "peer \<Rightarrow> candidate \<Rightarrow> string option"
  fetchFails :: bool

text \<open>
  The instance fields. \<open>onLocalStream\<close> is read by the source but never assigned by
  it: the field says whether the page has installed that handler.
\<close>

record client =
  apiBaseUrl :: string
  wsEndpoint :: string
  sessionId :: "string option"
  userId :: string
  userType :: string
  ws :: "websocket option"
  pc :: "peer option"
  localStream :: "stream option"
  remoteStream :: "stream option"
  isCallActive :: bool
  isLocalVideoEnabled :: bool
  isLocalAudioEnabled :: bool
  onLocalStream :: bool

record config =
  cfg_apiBaseUrl :: "string option"
  cfg_wsEndpoint :: "string option"
  cfg_sessionId :: "string option"
  cfg_userId :: "string option"
  cfg_userType :: "string option"

text \<open>\<open>x || d\<close> on an optional string: \<open>undefined\<close> and the empty string are falsy.\<close>

definition str_or :: "string option \<Rightarrow> string \<Rightarrow> string" where
  "str_or x d = (case x of None \<Rightarrow> d | Some s \<Rightarrow> if s = [] then d else s)"

definition truthy :: "string option \<Rightarrow> bool" where
  "truthy x = (case x of None \<Rightarrow> False | Some s \<Rightarrow> s \<noteq> [])"

definition constructor :: "config \<Rightarrow> client" where
  "constructor cfg =
     \<lparr>apiBaseUrl = str_or (cfg_apiBaseUrl cfg) [],
      wsEndpoint = str_or (cfg_wsEndpoint cfg) [],
      sessionId = (if truthy (cfg_sessionId cfg) then cfg_sessionId cfg else None),
      userId = str_or (cfg_userId cfg) [],
      userType = str_or (cfg_userType cfg) ''patient'',
      ws = None,
      pc = None,
      localStream = None,
      remoteStream = None,
      isCallActive = False,
      isLocalVideoEnabled = True,
      isLocalAudioEnabled = True,
      onLocalStream = False\<rparr>"

subsection \<open>The signaling channel\<close>

definition ws_open :: "client \<Rightarrow> bool" where
  "ws_open st = (case ws st of None \<Rightarrow> False | Some w \<Rightarrow> readyState w = WS_OPEN)"

definition sendWebSocketMessage :: "client \<Rightarrow> message \<Rightarrow> effect list" where
  "sendWebSocketMessage st m =
     (if ws_open st then [Send m] else [ConsoleError ''WebSocket not connected''])"

subsection \<open>Starting a call\<close>

text \<open>\<open>createPeerConnection\<close>: a new connection, with the four handlers below on it.\<close>

definition createPeerConnection :: "peer \<times> effect list" where
  "createPeerConnection = (new_peer, [NewPeerConnection])"

text \<open>\<open>localStream.getTracks().forEach(track => pc.addTrack(track, localStream))\<close>\<close>

definition addTracks :: "peer \<Rightarrow> stream \<Rightarrow> peer \<times> effect list" where
  "addTracks p s = (p\<lparr>senders := senders p @ map tid s\<rparr>, map (AddTrack \<circ> tid) s)"

text \<open>
  The first statements of \<open>startCall\<close> and of \<open>handleOffer\<close>'s first branch: capture,
  then show the local stream if the page asked for it.
\<close>

definition acquire :: "engine \<Rightarrow> client \<Rightarrow> string + stream \<times> effect list" where
  "acquire env st =
     (case getUserMedia env of
        Inl err \<Rightarrow> Inl err
      | Inr s \<Rightarrow> Inr (s, GetUserMedia # (if onLocalStream st then [OnLocalStream s] else [])))"

definition startCall_catch :: "string \<Rightarrow> effect list" where
  "startCall_catch err =
     [ConsoleError ''Error starting call:'', OnError (''Failed to start call: '' @ err)]"

definition startCall :: "engine \<Rightarrow> client \<Rightarrow> client \<times> effect list" where
  "startCall env st =
     (case acquire env st of
        Inl err \<Rightarrow> (st, GetUserMedia # startCall_catch err)
      | Inr (s, fx1) \<Rightarrow>
          let (p0, fx2) = createPeerConnection;
              (p, fx3) = addTracks p0 s;
              st1 = st\<lparr>localStream := Some s, pc := Some p\<rparr>
          in (case createOffer env p of
                Inl err \<Rightarrow> (st1, fx1 @ fx2 @ fx3 @ CreateOffer # startCall_catch err)
              | Inr offer \<Rightarrow>
                  (case setLocalDescription env p offer of
                     Some err \<Rightarrow>
                       (st1, fx1 @ fx2 @ fx3 @ CreateOffer # SetLocalDescription offer #
                             startCall_catch err)
                   | None \<Rightarrow>
                       let st2 = st1\<lparr>pc := Some (p\<lparr>localDescription := Some offer\<rparr>)\<rparr>
                       in (st2\<lparr>isCallActive := True\<rparr>,
                           fx1 @ fx2 @ fx3 @ CreateOffer # SetLocalDescription offer #
                           sendWebSocketMessage st2 (offer_message (sessionId st2) offer) @
                           [OnConnectionStateChange ''connecting'']))))"


definition pc_onicecandidate :: "client \<Rightarrow> candidate option \<Rightarrow> client \<times> effect list" where
  "pc_onicecandidate st c =
     (case c of
        None \<Rightarrow> (st, [])
      | Some c' \<Rightarrow>
          (st, sendWebSocketMessage st (ice_message (sessionId st) c')))"


subsection \<open>Incoming negotiation\<close>

definition handleOffer_catch :: "string \<Rightarrow> effect list" where
  "handleOffer_catch err =
     [ConsoleError ''Error handling offer:'', OnError (''Failed to handle offer: '' @ err)]"

text \<open>
  The two guarded blocks at the head of \<open>handleOffer\<close>: capture only if there is no
  local stream, a new connection only if there is none.
\<close>

definition offer_stream :: "engine \<Rightarrow> client \<Rightarrow> string + stream \<times> effect list" where
  "offer_stream env st =
     (case localStream st of
        Some s \<Rightarrow> Inr (s, [])
      | None \<Rightarrow> acquire env st)"

definition offer_peer :: "client \<Rightarrow> stream \<Rightarrow> peer \<times> effect list" where
  "offer_peer st s =
     (case pc st of
        Some p \<Rightarrow> (p, [])
      | None \<Rightarrow>
          let (p0, fx2) = createPeerConnection;
              (p, fx3) = addTracks p0 s
          in (p, fx2 @ fx3))"

definition handleOffer :: "engine \<Rightarrow> client \<Rightarrow> sdp \<Rightarrow> client \<times> effect list" where
  "handleOffer env st offerSdp =
     (case offer_stream env st of
        Inl err \<Rightarrow> (st, GetUserMedia # handleOffer_catch err)
      | Inr (s, fx1) \<Rightarrow>
          let (p, fx2) = offer_peer st s;
              st1 = st\<lparr>localStream := Some s, pc := Some p\<rparr>;
              fx = fx1 @ fx2 @ [SetRemoteDescription offerSdp]
          in (case setRemoteDescription env p offerSdp of
                Some err \<Rightarrow> (st1, fx @ handleOffer_catch err)
              | None \<Rightarrow>
                  let p1 = p\<lparr>remoteDescription := Some offerSdp\<rparr>;
                      st2 = st1\<lparr>pc := Some p1\<rparr>
                  in (case createAnswer env p1 of
                        Inl err \<Rightarrow> (st2, fx @ CreateAnswer # handleOffer_catch err)
                      | Inr answer \<Rightarrow>
                          (case setLocalDescription env p1 answer of
                             Some err \<Rightarrow>
                               (st2, fx @ CreateAnswer # SetLocalDescription answer #
                                     handleOffer_catch err)
                           | None \<Rightarrow>
                               let st3 = st2\<lparr>pc := Some (p1\<lparr>localDescription := Some answer\<rparr>)\<rparr>
                               in (st3\<lparr>isCallActive := True\<rparr>,
                                   fx @ CreateAnswer # SetLocalDescription answer #
                                   sendWebSocketMessage st3
                                     (answer_message (sessionId st3) answer) @
                                   [OnConnectionStateChange ''connecting''])))))"

definition handleAnswer :: "engine \<Rightarrow> client \<Rightarrow> sdp \<Rightarrow> client \<times> effect list" where
  "handleAnswer env st answerSdp =
     (case pc st of
        None \<Rightarrow> (st, [])
      | Some p \<Rightarrow>
          (case setRemoteDescription env p answerSdp of
             Some err \<Rightarrow>
               (st, [SetRemoteDescription answerSdp, ConsoleError ''Error handling answer:'',
                     OnError (''Failed to handle answer: '' @ err)])
           | None \<Rightarrow>
               (st\<lparr>pc := Some (p\<lparr>remoteDescription := Some answerSdp\<rparr>)\<rparr>,
                [SetRemoteDescription answerSdp])))"

definition handleIceCandidate :: "engine \<Rightarrow> client \<Rightarrow> candidate \<Rightarrow> client \<times> effect list" where
  "handleIceCandidate env st c =
     (case pc st of
        None \<Rightarrow> (st, [])
      | Some p \<Rightarrow>
          (case addIceCandidate env p c of
             Some err \<Rightarrow> (st, [AddIceCandidate c, ConsoleError ''Error handling ICE candidate:''])
           | None \<Rightarrow>
               (st\<lparr>pc := Some (p\<lparr>remoteCandidates := remoteCandidates p @ [c]\<rparr>)\<rparr>,
                [AddIceCandidate c])))"

subsection \<open>Toggling the local tracks\<close>

text \<open>
  \<open>getVideoTracks()[0]\<close>, \<open>getAudioTracks()[0]\<close>: the first track of the kind, or
  \<open>undefined\<close>. \<open>set_enabled k b s\<close> assigns \<open>enabled\<close> on that track.
\<close>

fun first_track :: "track_kind \<Rightarrow> stream \<Rightarrow> track option" where
  "first_track k [] = None"
| "first_track k (t # ts) = (if kind t = k then Some t else first_track k ts)"

fun set_enabled :: "track_kind \<Rightarrow> bool \<Rightarrow> stream \<Rightarrow> stream" where
  "set_enabled k b [] = []"
| "set_enabled k b (t # ts) =
     (if kind t = k then t\<lparr>enabled := b\<rparr> # ts else t # set_enabled k b ts)"

definition toggleVideo :: "client \<Rightarrow> bool \<times> client" where
  "toggleVideo st =
     (case localStream st of
        None \<Rightarrow> (False, st)
      | Some s \<Rightarrow>
          (case first_track Video s of
             None \<Rightarrow> (False, st)
           | Some videoTrack \<Rightarrow>
               let b = \<not> isLocalVideoEnabled st
               in (b, st\<lparr>isLocalVideoEnabled := b,
                         localStream := Some (set_enabled Video b s)\<rparr>)))"

definition toggleAudio :: "client \<Rightarrow> bool \<times> client" where
  "toggleAudio st =
     (case localStream st of
        None \<Rightarrow> (False, st)
      | Some s \<Rightarrow>
          (case first_track Audio s of
             None \<Rightarrow> (False, st)
           | Some audioTrack \<Rightarrow>
               let b = \<not> isLocalAudioEnabled st
               in (b, st\<lparr>isLocalAudioEnabled := b,
                         localStream := Some (set_enabled Audio b s)\<rparr>)))"

subsection \<open>Ending a call\<close>

text \<open>
  The body of \<open>endCall\<close>'s \<open>try\<close> block, statement by statement. Nothing in it can
  throw, so the \<open>catch\<close> that would report \<open>Failed to end call\<close> is never entered.
  A rejected \<open>fetch\<close> is caught by the inner \<open>try\<close> and only logged.
\<close>

definition end_url :: "client \<Rightarrow> string" where
  "end_url st = apiBaseUrl st @ ''/sessions/'' @ str_or (sessionId st) [] @ ''/end''"

definition endCall :: "engine \<Rightarrow> client \<Rightarrow> client \<times> effect list" where
  "endCall env st =
     (let fx1 = (if ws_open st
                 then sendWebSocketMessage st (call_ended_message (sessionId st))
                 else []);
          (st1, fx2) = (case pc st of
                          Some p \<Rightarrow> (st\<lparr>pc := None\<rparr>, [ClosePeerConnection])
                        | None \<Rightarrow> (st, []));
          (st2, fx3) = (case localStream st1 of
                          Some s \<Rightarrow> (st1\<lparr>localStream := None\<rparr>, map (StopTrack \<circ> tid) s)
                        | None \<Rightarrow> (st1, []));
          (st3, fx4) = (case ws st2 of
                          Some w \<Rightarrow> (st2\<lparr>ws := None\<rparr>, [CloseWebSocket])
                        | None \<Rightarrow> (st2, []));
          st4 = st3\<lparr>isCallActive := False\<rparr>;
          fx5 = (if truthy (sessionId st4)
                 then Fetch (end_url st4) #
                      (if fetchFails env then [ConsoleError ''Error ending session:''] else [])
                 else [])
      in (st4, fx1 @ fx2 @ fx3 @ fx4 @ OnCallEnded # fx5))"

definition destroy :: "engine \<Rightarrow> client \<Rightarrow> client \<times> effect list" where
  "destroy env st = endCall env st"

subsection \<open>Dispatch\<close>

definition handleSignalingMessage :: "engine \<Rightarrow> client \<Rightarrow> message \<Rightarrow> client \<times> effect list" where
  "handleSignalingMessage env st message =
     (if mtype message = ''offer'' then handleOffer env st (msdp message)
      else if mtype message = ''answer'' then handleAnswer env st (msdp message)
      else if mtype message = ''ice-candidate'' then handleIceCandidate env st (mcandidate message)
      else if mtype message = ''call-ended'' then endCall env st
      else (st, []))"

text \<open>
  The handlers \<open>connectWebSocket\<close> installs on the socket. The browser has set
  \<open>readyState\<close> before it calls them; \<open>onmessage\<close> takes the parsed message.
\<close>

definition ws_onopen :: "client \<Rightarrow> client \<times> effect list" where
  "ws_onopen st =
     (st, sendWebSocketMessage st (join_message (sessionId st) (userId st) (userType st)))"

definition ws_onmessage :: "engine \<Rightarrow> client \<Rightarrow> message \<Rightarrow> client \<times> effect list" where
  "ws_onmessage env st message = handleSignalingMessage env st message"

definition ws_onerror :: "client \<Rightarrow> client \<times> effect list" where
  "ws_onerror st =
     (st, [ConsoleError ''WebSocket error:'', OnError ''WebSocket connection error''])"



subsection \<open>What a run did\<close>

text \<open>
  The messages written to the socket, the reasons handed to \<open>onError\<close> and the labels
  handed to \<open>onConnectionStateChange\<close>, each in order. The source keeps no field for
  the connection state: the label last handed to \<open>onConnectionStateChange\<close> is all
  there is of it.
\<close>

fun sends :: "effect list \<Rightarrow> message list" where
  "sends [] = []"
| "sends (e # fx) = (case e of Send m \<Rightarrow> m # sends fx | _ \<Rightarrow> sends fx)"

fun errors :: "effect list \<Rightarrow> string list" where
  "errors [] = []"
| "errors (e # fx) = (case e of OnError r \<Rightarrow> r # errors fx | _ \<Rightarrow> errors fx)"

fun state_changes :: "effect list \<Rightarrow> string list" where
  "state_changes [] = []"
| "state_changes (e # fx) =
     (case e of OnConnectionStateChange l \<Rightarrow> l # state_changes fx | _ \<Rightarrow> state_changes fx)"

subsection \<open>Example clients and browsers\<close>

definition cfg0 :: config where
  "cfg0 = \<lparr>cfg_apiBaseUrl = Some ''https://api.example'',
     cfg_wsEndpoint = Some ''wss://sig.example'',
     cfg_sessionId = Some ''S1'', cfg_userId = Some ''u1'', cfg_userType = None\<rparr>"

definition cam :: stream where
  "cam = [\<lparr>tid = 0, kind = Video, enabled = True\<rparr>, \<lparr>tid = 1, kind = Audio, enabled = True\<rparr>]"

text \<open>
  A browser that grants everything, one that denies capture, one that cannot make an
  offer.
\<close>

definition env_ok :: engine where
  "env_ok = \<lparr>getUserMedia = Inr cam,
     createOffer = (\<lambda>p. Inr ''offer-sdp''),
     createAnswer = (\<lambda>p. Inr ''answer-sdp''),
     setLocalDescription = (\<lambda>p d. None),
     setRemoteDescription = (\<lambda>p d. None),
     addIceCandidate = (\<lambda>p c. None),
     fetchFails = False\<rparr>"

definition env_denied :: engine where
  "env_denied = env_ok\<lparr>getUserMedia := Inl ''Permission denied''\<rparr>"

definition env_no_offer :: engine where
  "env_no_offer = env_ok\<lparr>createOffer := (\<lambda>p. Inl ''no codec'')\<rparr>"

text \<open>
  \<open>fresh0\<close>: just constructed. \<open>joined0\<close>: its socket has opened. \<open>calling0\<close>:
  \<open>startCall\<close> has then sent its offer.
\<close>

definition fresh0 :: client where
  "fresh0 = constructor cfg0"

definition joined0 :: client where
  "joined0 = fresh0\<lparr>ws := Some \<lparr>readyState = WS_OPEN\<rparr>\<rparr>"

definition calling0 :: client where
  "calling0 = fst (startCall env_ok joined0)"

section \<open>Properties\<close>

subsection \<open>Reading a list of effects\<close>

lemma sends_append: "sends (a @ b) = sends a @ sends b"
  by (induction a) (auto split: effect.splits)

lemma errors_append: "errors (a @ b) = errors a @ errors b"
  by (induction a) (auto split: effect.splits)

lemma state_changes_append: "state_changes (a @ b) = state_changes a @ state_changes b"
  by (induction a) (auto split: effect.splits)

lemma sends_tracks [simp]: "sends (map (AddTrack \<circ> tid) s) = []"
  by (induction s) auto

lemma errors_tracks [simp]: "errors (map (AddTrack \<circ> tid) s) = []"
  by (induction s) auto

lemma state_changes_tracks [simp]: "state_changes (map (AddTrack \<circ> tid) s) = []"
  by (induction s) auto

lemma errors_stops [simp]: "errors (map (StopTrack \<circ> tid) s) = []"
  by (induction s) auto

lemma sends_stops [simp]: "sends (map (StopTrack \<circ> tid) s) = []"
  by (induction s) auto

lemma state_changes_stops [simp]: "state_changes (map (StopTrack \<circ> tid) s) = []"
  by (induction s) auto

lemma count_stops [simp]: "count_list (map (StopTrack \<circ> tid) s) OnCallEnded = 0"
  by (induction s) auto

lemma new_peer_tracks [simp]: "NewPeerConnection \<notin> set (map (AddTrack \<circ> tid) s)"
  by (induction s) auto

lemma count_new_peer_tracks [simp]:
  "count_list (map (AddTrack \<circ> tid) s) NewPeerConnection = 0"
  by (induction s) auto

subsection \<open>The examples, evaluated\<close>

lemma fresh0_eq:
  "fresh0 = \<lparr>apiBaseUrl = ''https://api.example'', wsEndpoint = ''wss://sig.example'',
     sessionId = Some ''S1'', userId = ''u1'', userType = ''patient'', ws = None, pc = None,
     localStream = None, remoteStream = None, isCallActive = False,
     isLocalVideoEnabled = True, isLocalAudioEnabled = True, onLocalStream = False\<rparr>"
  by (simp add: fresh0_def constructor_def cfg0_def str_or_def truthy_def)

lemma calling0_eq:
  "calling0 = \<lparr>apiBaseUrl = ''https://api.example'', wsEndpoint = ''wss://sig.example'',
     sessionId = Some ''S1'', userId = ''u1'', userType = ''patient'',
     ws = Some \<lparr>readyState = 1\<rparr>,
     pc = Some \<lparr>localDescription = Some ''offer-sdp'', remoteDescription = None,
                 senders = [0, 1], remoteCandidates = []\<rparr>,
     localStream = Some cam, remoteStream = None, isCallActive = True,
     isLocalVideoEnabled = True, isLocalAudioEnabled = True, onLocalStream = False\<rparr>"
  by (simp add: calling0_def joined0_def fresh0_eq startCall_def acquire_def env_ok_def
      createPeerConnection_def addTracks_def new_peer_def cam_def WS_OPEN_def)

subsection \<open>Ending a call\<close>

lemma endCall_state:
  "fst (endCall env st) = st\<lparr>pc := None, localStream := None, ws := None, isCallActive := False\<rparr>"
  by (cases st) (simp add: endCall_def Let_def split: option.splits)

lemma endCall_effects:
  "snd (endCall env st) =
     (if ws_open st then [Send (call_ended_message (sessionId st))] else []) @
     (case pc st of Some p \<Rightarrow> [ClosePeerConnection] | None \<Rightarrow> []) @
     (case localStream st of Some s \<Rightarrow> map (StopTrack \<circ> tid) s | None \<Rightarrow> []) @
     (case ws st of Some w \<Rightarrow> [CloseWebSocket] | None \<Rightarrow> []) @
     OnCallEnded #
     (if truthy (sessionId st)
      then Fetch (end_url st) #
           (if fetchFails env then [ConsoleError ''Error ending session:''] else [])
      else [])"
  by (simp add: endCall_def Let_def sendWebSocketMessage_def end_url_def split: option.splits)


text \<open>
  C10. After \<open>endCall\<close>, from any client and whatever the browser answers, the peer
  connection, the local stream and the socket are \<open>null\<close>, \<open>isCallActive\<close> is false,
  and \<open>stop\<close> has been called on every track of the local stream the client held.
\<close>

theorem endCall_releases_everything:
  "pc (fst (endCall env st)) = None \<and>
   localStream (fst (endCall env st)) = None \<and>
   ws (fst (endCall env st)) = None \<and>
   \<not> isCallActive (fst (endCall env st)) \<and>
   (\<forall>s. localStream st = Some s \<longrightarrow>
      (\<forall>t \<in> set s. StopTrack (tid t) \<in> set (snd (endCall env st))))"
  by (auto simp: endCall_state endCall_effects)

theorem endCall_releases_everything_witness:
  "pc (fst (endCall env_ok calling0)) = None \<and>
   localStream (fst (endCall env_ok calling0)) = None \<and>
   ws (fst (endCall env_ok calling0)) = None \<and>
   \<not> isCallActive (fst (endCall env_ok calling0)) \<and>
   localStream calling0 = Some cam \<and>
   StopTrack 0 \<in> set (snd (endCall env_ok calling0)) \<and>
   StopTrack 1 \<in> set (snd (endCall env_ok calling0))"
  using endCall_releases_everything [of env_ok calling0]
  by (simp add: calling0_eq cam_def)

text \<open>
  C2, as amended. A second \<open>endCall\<close> right after a first leaves the client as the first
  left it, and neither call reports an error; the second writes nothing to the socket.
  But \<open>onCallEnded\<close> is invoked once by each call, and the second call posts the end of
  the session again when the client has a session id. (\<open>env\<close> and \<open>env'\<close>: the
  browser may answer the two calls differently.)
\<close>

theorem endCall_twice:
  "fst (endCall env' (fst (endCall env st))) = fst (endCall env st) \<and>
   count_list (snd (endCall env st)) OnCallEnded = 1 \<and>
   snd (endCall env' (fst (endCall env st))) =
     OnCallEnded #
     (if truthy (sessionId st)
      then Fetch (end_url st) #
           (if fetchFails env' then [ConsoleError ''Error ending session:''] else [])
      else []) \<and>
   errors (snd (endCall env st)) = []"
  by (simp add: endCall_state endCall_effects ws_open_def end_url_def errors_append
      split: option.splits)

theorem endCall_twice_witness:
  "fst (endCall env_ok (fst (endCall env_ok calling0))) = fst (endCall env_ok calling0) \<and>
   count_list (snd (endCall env_ok calling0)) OnCallEnded = 1 \<and>
   snd (endCall env_ok (fst (endCall env_ok calling0))) =
     [OnCallEnded, Fetch ''https://api.example/sessions/S1/end'']"
  using endCall_twice [of env_ok env_ok calling0]
  by (simp add: calling0_eq truthy_def end_url_def str_or_def env_ok_def)

text \<open>
  Two calls, one \<open>onCallEnded\<close>: not so. On a client in a call the two calls invoke it
  twice.
\<close>

theorem endCall_twice_counterexample:
  "count_list (snd (endCall env_ok calling0) @
               snd (endCall env_ok (fst (endCall env_ok calling0)))) OnCallEnded = 2"
  by (simp add: endCall_state endCall_effects calling0_eq ws_open_def WS_OPEN_def truthy_def)

subsection \<open>Receiving call-ended\<close>

text \<open>
  C3, as amended. On a \<open>call-ended\<close> message the peer connection is closed and dropped,
  every local track is stopped and the stream dropped, and \<open>onCallEnded\<close> is invoked
  exactly once. If the socket is open the client also writes a \<open>call-ended\<close> of its own,
  with its own session id, before it tears down; if the socket is not open it writes
  nothing.
\<close>

theorem call_ended_received:
  assumes "mtype m = ''call-ended''"
  shows "pc (fst (handleSignalingMessage env st m)) = None \<and>
         localStream (fst (handleSignalingMessage env st m)) = None \<and>
         (\<forall>s. localStream st = Some s \<longrightarrow>
            (\<forall>t \<in> set s. StopTrack (tid t) \<in> set (snd (handleSignalingMessage env st m)))) \<and>
         (pc st \<noteq> None \<longrightarrow> ClosePeerConnection \<in> set (snd (handleSignalingMessage env st m))) \<and>
         count_list (snd (handleSignalingMessage env st m)) OnCallEnded = 1 \<and>
         sends (snd (handleSignalingMessage env st m)) =
           (if ws_open st then [call_ended_message (sessionId st)] else [])"
  using assms
  by (auto simp: handleSignalingMessage_def endCall_state endCall_effects sends_append
      split: option.splits)

theorem call_ended_received_witness:
  "mtype (call_ended_message (Some ''S1'')) = ''call-ended'' \<and>
   pc (fst (handleSignalingMessage env_ok calling0 (call_ended_message (Some ''S1'')))) = None \<and>
   localStream (fst (handleSignalingMessage env_ok calling0 (call_ended_message (Some ''S1'')))) =
     None \<and>
   StopTrack 0 \<in>
     set (snd (handleSignalingMessage env_ok calling0 (call_ended_message (Some ''S1'')))) \<and>
   StopTrack 1 \<in>
     set (snd (handleSignalingMessage env_ok calling0 (call_ended_message (Some ''S1'')))) \<and>
   ClosePeerConnection \<in>
     set (snd (handleSignalingMessage env_ok calling0 (call_ended_message (Some ''S1'')))) \<and>
   count_list (snd (handleSignalingMessage env_ok calling0 (call_ended_message (Some ''S1''))))
     OnCallEnded = 1"
  using call_ended_received [of "call_ended_message (Some ''S1'')" env_ok calling0]
  by (simp add: call_ended_message_def msg_def calling0_eq cam_def)

text \<open>
  No \<open>call-ended\<close> goes out in response: not so. A client that has sent its offer and
  then receives \<open>call-ended\<close> writes \<open>call-ended\<close> back.
\<close>

theorem call_ended_received_counterexample:
  "sends (snd (handleSignalingMessage env_ok calling0 (call_ended_message (Some ''S1'')))) =
     [call_ended_message (Some ''S1'')]"
  by (simp add: handleSignalingMessage_def endCall_effects sends_append calling0_eq
      ws_open_def WS_OPEN_def call_ended_message_def msg_def cam_def)

subsection \<open>The session id of an incoming message\<close>

text \<open>
  C6, as amended. The dispatch reads the type of an incoming message and, by type, its
  \<open>sdp\<close> or \<open>candidate\<close>; it never reads the message's \<open>sessionId\<close>. A message
  carrying any other session id is handled exactly as the same message carrying the
  client's own.
\<close>

theorem sessionId_not_inspected:
  "handleSignalingMessage env st (m\<lparr>msessionId := sid\<rparr>) = handleSignalingMessage env st m"
  by (simp add: handleSignalingMessage_def)

theorem sessionId_not_inspected_witness:
  "handleSignalingMessage env_ok calling0 (call_ended_message (Some ''S2'')) =
   handleSignalingMessage env_ok calling0 (call_ended_message (Some ''S1''))"
  using sessionId_not_inspected
    [where env = env_ok and st = calling0 and m = "call_ended_message (Some ''S1'')"
       and sid = "Some ''S2''"]
  by (simp add: call_ended_message_def msg_def)

text \<open>
  A message for a foreign session is ignored: not so. The client's session is \<open>S1\<close>; a
  \<open>call-ended\<close> for \<open>S2\<close> closes its peer connection, makes it write a
  \<open>call-ended\<close> for \<open>S1\<close> and invokes \<open>onCallEnded\<close>.
\<close>

theorem foreign_session_counterexample:
  "sessionId calling0 = Some ''S1'' \<and>
   pc calling0 \<noteq> None \<and>
   pc (fst (handleSignalingMessage env_ok calling0 (call_ended_message (Some ''S2'')))) = None \<and>
   sends (snd (handleSignalingMessage env_ok calling0 (call_ended_message (Some ''S2'')))) =
     [call_ended_message (Some ''S1'')] \<and>
   OnCallEnded \<in>
     set (snd (handleSignalingMessage env_ok calling0 (call_ended_message (Some ''S2''))))"
  by (simp add: handleSignalingMessage_def endCall_state endCall_effects sends_append calling0_eq
      ws_open_def WS_OPEN_def call_ended_message_def msg_def cam_def)

subsection \<open>Starting a call\<close>

lemma startCall_ok:
  assumes "getUserMedia env = Inr s"
    and "createOffer env (new_peer\<lparr>senders := map tid s\<rparr>) = Inr offer"
    and "setLocalDescription env (new_peer\<lparr>senders := map tid s\<rparr>) offer = None"
  shows "startCall env st =
    (st\<lparr>localStream := Some s,
        pc := Some (new_peer\<lparr>senders := map tid s, localDescription := Some offer\<rparr>),
        isCallActive := True\<rparr>,
     GetUserMedia # (if onLocalStream st then [OnLocalStream s] else []) @
     NewPeerConnection # map (AddTrack \<circ> tid) s @
     [CreateOffer, SetLocalDescription offer] @
     (if ws_open st then [Send (offer_message (sessionId st) offer)]
      else [ConsoleError ''WebSocket not connected'']) @
     [OnConnectionStateChange ''connecting''])"
  using assms
  by (simp add: startCall_def acquire_def createPeerConnection_def addTracks_def
      sendWebSocketMessage_def ws_open_def new_peer_def)

text \<open>
  C5, as amended. When capture is granted, the offer is created and set as the local
  description, \<open>startCall\<close> holds the captured stream, holds one new peer connection with
  the stream's tracks added and the offer as its local description, sets \<open>isCallActive\<close>,
  reports no error and reports the connection state \<open>connecting\<close> (the label the source
  uses where the specification says negotiating). It writes the offer, with the client's
  session id, only if the socket is open; if not, it writes nothing and still does all the
  rest.
\<close>

theorem startCall_success:
  assumes "getUserMedia env = Inr s"
    and "createOffer env (new_peer\<lparr>senders := map tid s\<rparr>) = Inr offer"
    and "setLocalDescription env (new_peer\<lparr>senders := map tid s\<rparr>) offer = None"
  shows "localStream (fst (startCall env st)) = Some s \<and>
         pc (fst (startCall env st)) =
           Some (new_peer\<lparr>senders := map tid s, localDescription := Some offer\<rparr>) \<and>
         isCallActive (fst (startCall env st)) \<and>
         count_list (snd (startCall env st)) NewPeerConnection = 1 \<and>
         state_changes (snd (startCall env st)) = [''connecting''] \<and>
         errors (snd (startCall env st)) = [] \<and>
         sends (snd (startCall env st)) =
           (if ws_open st then [offer_message (sessionId st) offer] else [])"
  by (simp add: startCall_ok [OF assms] sends_append errors_append state_changes_append)

theorem startCall_success_witness:
  "getUserMedia env_ok = Inr cam \<and>
   createOffer env_ok (new_peer\<lparr>senders := map tid cam\<rparr>) = Inr ''offer-sdp'' \<and>
   setLocalDescription env_ok (new_peer\<lparr>senders := map tid cam\<rparr>) ''offer-sdp'' = None \<and>
   localStream (fst (startCall env_ok joined0)) = Some cam \<and>
   pc (fst (startCall env_ok joined0)) =
     Some \<lparr>localDescription = Some ''offer-sdp'', remoteDescription = None,
            senders = [0, 1], remoteCandidates = []\<rparr> \<and>
   isCallActive (fst (startCall env_ok joined0)) \<and>
   state_changes (snd (startCall env_ok joined0)) = [''connecting''] \<and>
   sends (snd (startCall env_ok joined0)) = [offer_message (Some ''S1'') ''offer-sdp'']"
proof -
  have a: "getUserMedia env_ok = Inr cam"
    by (simp add: env_ok_def)
  have b: "createOffer env_ok (new_peer\<lparr>senders := map tid cam\<rparr>) = Inr ''offer-sdp''"
    by (simp add: env_ok_def)
  have c: "setLocalDescription env_ok (new_peer\<lparr>senders := map tid cam\<rparr>) ''offer-sdp'' = None"
    by (simp add: env_ok_def)
  show ?thesis
    using startCall_success [OF a b c, of joined0] a b c
    by (simp add: joined0_def fresh0_eq ws_open_def new_peer_def cam_def)
qed

text \<open>
  A \<open>startCall\<close> that succeeds sends an offer: not so. On a client just constructed,
  whose socket was never opened, \<open>startCall\<close> succeeds, reports \<open>connecting\<close> and no
  error, and writes nothing.
\<close>

theorem startCall_unsent_counterexample:
  "isCallActive (fst (startCall env_ok fresh0)) \<and>
   errors (snd (startCall env_ok fresh0)) = [] \<and>
   sends (snd (startCall env_ok fresh0)) = [] \<and>
   snd (startCall env_ok fresh0) =
     [GetUserMedia, NewPeerConnection, AddTrack 0, AddTrack 1, CreateOffer,
      SetLocalDescription ''offer-sdp'', ConsoleError ''WebSocket not connected'',
      OnConnectionStateChange ''connecting'']"
  by (simp add: fresh0_eq startCall_def acquire_def env_ok_def createPeerConnection_def
      addTracks_def new_peer_def cam_def sendWebSocketMessage_def ws_open_def)

text \<open>
  C8. If capture is refused, or the offer cannot be created, or it cannot be set as the
  local description, then \<open>onError\<close> is invoked once, with \<open>Failed to start call: \<close>
  followed by the error's message; no connection state is reported and \<open>isCallActive\<close>
  is as it was; nothing is written to the socket.
\<close>

theorem startCall_failure:
  assumes "getUserMedia env = Inl err \<or>
           (\<exists>s. getUserMedia env = Inr s \<and>
              (createOffer env (new_peer\<lparr>senders := map tid s\<rparr>) = Inl err \<or>
               (\<exists>offer. createOffer env (new_peer\<lparr>senders := map tid s\<rparr>) = Inr offer \<and>
                  setLocalDescription env (new_peer\<lparr>senders := map tid s\<rparr>) offer = Some err)))"
  shows "errors (snd (startCall env st)) = [''Failed to start call: '' @ err] \<and>
         state_changes (snd (startCall env st)) = [] \<and>
         sends (snd (startCall env st)) = [] \<and>
         isCallActive (fst (startCall env st)) = isCallActive st"
  using assms
  by (auto simp: startCall_def acquire_def createPeerConnection_def addTracks_def
      startCall_catch_def new_peer_def sends_append errors_append state_changes_append)

theorem startCall_failure_witness:
  "getUserMedia env_denied = Inl ''Permission denied'' \<and>
   errors (snd (startCall env_denied joined0)) = [''Failed to start call: Permission denied''] \<and>
   state_changes (snd (startCall env_denied joined0)) = [] \<and>
   sends (snd (startCall env_denied joined0)) = [] \<and>
   \<not> isCallActive (fst (startCall env_denied joined0)) \<and>
   createOffer env_no_offer (new_peer\<lparr>senders := map tid cam\<rparr>) = Inl ''no codec'' \<and>
   errors (snd (startCall env_no_offer joined0)) = [''Failed to start call: no codec''] \<and>
   state_changes (snd (startCall env_no_offer joined0)) = [] \<and>
   sends (snd (startCall env_no_offer joined0)) = [] \<and>
   \<not> isCallActive (fst (startCall env_no_offer joined0))"
proof -
  have a: "getUserMedia env_denied = Inl ''Permission denied''"
    by (simp add: env_denied_def env_ok_def)
  have b: "getUserMedia env_no_offer = Inr cam"
    by (simp add: env_no_offer_def env_ok_def)
  have c: "createOffer env_no_offer (new_peer\<lparr>senders := map tid cam\<rparr>) = Inl ''no codec''"
    by (simp add: env_no_offer_def env_ok_def)
  show ?thesis
    using startCall_failure [of env_denied "''Permission denied''" joined0]
      startCall_failure [of env_no_offer "''no codec''" joined0] a b c
    by (simp add: joined0_def fresh0_eq)
qed

subsection \<open>Toggling\<close>

lemma first_track_set_enabled:
  "first_track k (set_enabled k b s) = map_option (\<lambda>t. t\<lparr>enabled := b\<rparr>) (first_track k s)"
  by (induction s) auto

text \<open>
  C9. With no local stream, \<open>toggleVideo\<close> and \<open>toggleAudio\<close> return false and change
  nothing. With a local stream that has a track of the kind, each flips its flag, assigns
  the new value to \<open>enabled\<close> of the first track of that kind, and returns the new value.
\<close>

theorem toggle_tracks:
  "(localStream st = None \<longrightarrow> toggleVideo st = (False, st) \<and> toggleAudio st = (False, st)) \<and>
   (\<forall>s t. localStream st = Some s \<and> first_track Video s = Some t \<longrightarrow>
      toggleVideo st =
        (\<not> isLocalVideoEnabled st,
         st\<lparr>isLocalVideoEnabled := \<not> isLocalVideoEnabled st,
            localStream := Some (set_enabled Video (\<not> isLocalVideoEnabled st) s)\<rparr>) \<and>
      first_track Video (set_enabled Video (\<not> isLocalVideoEnabled st) s) =
        Some (t\<lparr>enabled := \<not> isLocalVideoEnabled st\<rparr>)) \<and>
   (\<forall>s t. localStream st = Some s \<and> first_track Audio s = Some t \<longrightarrow>
      toggleAudio st =
        (\<not> isLocalAudioEnabled st,
         st\<lparr>isLocalAudioEnabled := \<not> isLocalAudioEnabled st,
            localStream := Some (set_enabled Audio (\<not> isLocalAudioEnabled st) s)\<rparr>) \<and>
      first_track Audio (set_enabled Audio (\<not> isLocalAudioEnabled st) s) =
        Some (t\<lparr>enabled := \<not> isLocalAudioEnabled st\<rparr>))"
  by (simp add: toggleVideo_def toggleAudio_def Let_def first_track_set_enabled)

theorem toggle_tracks_witness:
  "localStream fresh0 = None \<and> toggleVideo fresh0 = (False, fresh0) \<and>
   toggleAudio fresh0 = (False, fresh0) \<and>
   localStream calling0 = Some cam \<and>
   first_track Video cam = Some \<lparr>tid = 0, kind = Video, enabled = True\<rparr> \<and>
   first_track Audio cam = Some \<lparr>tid = 1, kind = Audio, enabled = True\<rparr> \<and>
   toggleVideo calling0 =
     (False, calling0\<lparr>isLocalVideoEnabled := False,
        localStream := Some [\<lparr>tid = 0, kind = Video, enabled = False\<rparr>,
                             \<lparr>tid = 1, kind = Audio, enabled = True\<rparr>]\<rparr>) \<and>
   toggleAudio calling0 =
     (False, calling0\<lparr>isLocalAudioEnabled := False,
        localStream := Some [\<lparr>tid = 0, kind = Video, enabled = True\<rparr>,
                             \<lparr>tid = 1, kind = Audio, enabled = False\<rparr>]\<rparr>)"
  using toggle_tracks [of fresh0] toggle_tracks [of calling0]
  by (simp add: fresh0_eq calling0_eq cam_def)

subsection \<open>ICE candidates\<close>








subsection \<open>An offer\<close>

lemma handleOffer_existing_peer:
  assumes "pc st = Some p" and "localStream st = Some s"
    and "setRemoteDescription env p d = None"
    and "createAnswer env (p\<lparr>remoteDescription := Some d\<rparr>) = Inr answer"
    and "setLocalDescription env (p\<lparr>remoteDescription := Some d\<rparr>) answer = None"
  shows "handleOffer env st d =
    (st\<lparr>pc := Some (p\<lparr>remoteDescription := Some d, localDescription := Some answer\<rparr>),
        isCallActive := True\<rparr>,
     [SetRemoteDescription d, CreateAnswer, SetLocalDescription answer] @
     sendWebSocketMessage st (answer_message (sessionId st) answer) @
     [OnConnectionStateChange ''connecting''])"
  using assms
  by (cases st) (simp add: handleOffer_def offer_stream_def offer_peer_def
      sendWebSocketMessage_def ws_open_def)

lemma handleOffer_no_second_peer:
  "pc st \<noteq> None \<Longrightarrow> NewPeerConnection \<notin> set (snd (handleOffer env st d))"
  by (auto simp: handleOffer_def offer_stream_def offer_peer_def acquire_def
      handleOffer_catch_def sendWebSocketMessage_def Let_def
      split: option.splits sum.splits)

text \<open>
  C4. An offer that arrives at a client already holding a peer connection, as it does
  after its own \<open>startCall\<close>, whose offer is then the connection's local description,
  never makes the client create another one, whatever the browser answers. When the
  offer has come over the open socket, the client holds its local stream, and the browser
  accepts the incoming offer and makes and accepts an answer, the connection the client
  held has the incoming offer as its remote description and the answer as its local
  description, in place of whatever local description it had, and the answer is written
  to the socket with the client's session id.
\<close>

theorem glare_offer_reuses_peer:
  "(pc st \<noteq> None \<longrightarrow>
      NewPeerConnection \<notin> set (snd (handleSignalingMessage env st (offer_message sid d)))) \<and>
   (pc st = Some p \<and> localStream st = Some s \<and> ws_open st \<and>
    setRemoteDescription env p d = None \<and>
    createAnswer env (p\<lparr>remoteDescription := Some d\<rparr>) = Inr answer \<and>
    setLocalDescription env (p\<lparr>remoteDescription := Some d\<rparr>) answer = None \<longrightarrow>
      pc (fst (handleSignalingMessage env st (offer_message sid d))) =
        Some (p\<lparr>remoteDescription := Some d, localDescription := Some answer\<rparr>) \<and>
      snd (handleSignalingMessage env st (offer_message sid d)) =
        [SetRemoteDescription d, CreateAnswer, SetLocalDescription answer,
         Send (answer_message (sessionId st) answer), OnConnectionStateChange ''connecting''])"
proof (intro conjI impI)
  assume "pc st \<noteq> None"
  then show "NewPeerConnection \<notin>
      set (snd (handleSignalingMessage env st (offer_message sid d)))"
    by (simp add: handleSignalingMessage_def offer_message_def msg_def
        handleOffer_no_second_peer)
next
  assume h: "pc st = Some p \<and> localStream st = Some s \<and> ws_open st \<and>
    setRemoteDescription env p d = None \<and>
    createAnswer env (p\<lparr>remoteDescription := Some d\<rparr>) = Inr answer \<and>
    setLocalDescription env (p\<lparr>remoteDescription := Some d\<rparr>) answer = None"
  then have run: "handleOffer env st d =
    (st\<lparr>pc := Some (p\<lparr>remoteDescription := Some d, localDescription := Some answer\<rparr>),
        isCallActive := True\<rparr>,
     [SetRemoteDescription d, CreateAnswer, SetLocalDescription answer] @
     sendWebSocketMessage st (answer_message (sessionId st) answer) @
     [OnConnectionStateChange ''connecting''])"
    by (intro handleOffer_existing_peer) simp_all
  from h run
  show "pc (fst (handleSignalingMessage env st (offer_message sid d))) =
      Some (p\<lparr>remoteDescription := Some d, localDescription := Some answer\<rparr>)"
    by (simp add: handleSignalingMessage_def offer_message_def msg_def)
  from h run
  show "snd (handleSignalingMessage env st (offer_message sid d)) =
      [SetRemoteDescription d, CreateAnswer, SetLocalDescription answer,
       Send (answer_message (sessionId st) answer), OnConnectionStateChange ''connecting'']"
    by (simp add: handleSignalingMessage_def offer_message_def msg_def
        sendWebSocketMessage_def)
qed

theorem glare_offer_reuses_peer_witness:
  "pc calling0 = Some \<lparr>localDescription = Some ''offer-sdp'', remoteDescription = None,
                        senders = [0, 1], remoteCandidates = []\<rparr> \<and>
   localStream calling0 = Some cam \<and> ws_open calling0 \<and>
   NewPeerConnection \<notin>
     set (snd (handleSignalingMessage env_ok calling0
                 (offer_message (Some ''S1'') ''remote-offer''))) \<and>
   pc (fst (handleSignalingMessage env_ok calling0
              (offer_message (Some ''S1'') ''remote-offer''))) =
     Some \<lparr>localDescription = Some ''answer-sdp'', remoteDescription = Some ''remote-offer'',
            senders = [0, 1], remoteCandidates = []\<rparr> \<and>
   snd (handleSignalingMessage env_ok calling0 (offer_message (Some ''S1'') ''remote-offer'')) =
     [SetRemoteDescription ''remote-offer'', CreateAnswer, SetLocalDescription ''answer-sdp'',
      Send (answer_message (Some ''S1'') ''answer-sdp''), OnConnectionStateChange ''connecting'']"
proof -
  let ?p = "\<lparr>localDescription = Some ''offer-sdp'', remoteDescription = None,
             senders = [0, 1], remoteCandidates = []\<rparr>"
  have a: "pc calling0 = Some ?p"
    by (simp add: calling0_eq)
  have b: "localStream calling0 = Some cam"
    by (simp add: calling0_eq)
  have c: "ws_open calling0"
    by (simp add: calling0_eq ws_open_def WS_OPEN_def)
  have d: "setRemoteDescription env_ok ?p ''remote-offer'' = None"
    by (simp add: env_ok_def)
  have e: "createAnswer env_ok (?p\<lparr>remoteDescription := Some ''remote-offer''\<rparr>) =
      Inr ''answer-sdp''"
    by (simp add: env_ok_def)
  have f: "setLocalDescription env_ok (?p\<lparr>remoteDescription := Some ''remote-offer''\<rparr>)
      ''answer-sdp'' = None"
    by (simp add: env_ok_def)
  show ?thesis
    using glare_offer_reuses_peer
        [where st = calling0 and env = env_ok and sid = "Some ''S1''" and d = "''remote-offer''"
           and p = ?p and s = cam and answer = "''answer-sdp''"]
      a b c d e f
    by (simp add: calling0_eq)
qed

subsection \<open>Signaling and the connection-state label\<close>







end
